theory Spec2Isabelle
  imports Main "HOL-Library.Word"
begin

section \<open>Port policy (the TCP helper file)\<close>

type_synonym uint32 = "32 word"

text \<open>Go's \<^verbatim>\<open>string\<close> and \<^verbatim>\<open>[]byte\<close> are both sequences of bytes; \<^typ>\<open>char\<close> is a byte.\<close>

type_synonym bytes = string

text \<open>
  \<^verbatim>\<open>func allowTCPForwarding(port uint32) bool {
      return (port != 22 && port != 80 && port != 443) && port > 1024 || port == 0 }\<close>
  Go's \<^verbatim>\<open>&&\<close> binds tighter than \<^verbatim>\<open>||\<close>; the comparison on \<^verbatim>\<open>uint32\<close> is unsigned,
  as \<open><\<close> on words is.
\<close>

definition allowTCPForwarding :: "uint32 \<Rightarrow> bool" where
  "allowTCPForwarding port \<longleftrightarrow>
     ((port \<noteq> 22 \<and> port \<noteq> 80 \<and> port \<noteq> 443) \<and> port > 1024) \<or> port = 0"

section \<open>The Go library functions the handler calls\<close>

text \<open>
  The handler is written against \<^verbatim>\<open>strconv\<close>, \<^verbatim>\<open>net\<close>, \<^verbatim>\<open>fmt\<close> and
  \<^verbatim>\<open>golang.org/x/crypto/ssh\<close>. The functions below follow those libraries on the values
  the handler passes to them; integers are \<^typ>\<open>int\<close> with the 64-bit range of Go's
  \<^verbatim>\<open>int\<close> written out where \<^verbatim>\<open>strconv.Atoi\<close> clamps.
\<close>

subsection \<open>\<^verbatim>\<open>strconv.Itoa\<close>, \<^verbatim>\<open>strconv.Atoi\<close> and the verb \<^verbatim>\<open>%d\<close>\<close>

definition digit_char :: "int \<Rightarrow> char" where
  "digit_char d = char_of (48 + d)"

text \<open>The decimal digits of a non-negative integer, most significant first (\<^verbatim>\<open>%d\<close>).\<close>

function digits :: "int \<Rightarrow> string" where
  "digits n = (if n < 10 then [digit_char n] else digits (n div 10) @ [digit_char (n mod 10)])"
  by pat_completeness auto
termination
  by (relation "measure nat") auto

declare digits.simps [simp del]

definition Itoa :: "int \<Rightarrow> string" where
  "Itoa i = (if i < 0 then CHR ''-'' # digits (- i) else digits i)"

definition is_digit :: "char \<Rightarrow> bool" where
  "is_digit ch \<longleftrightarrow> 48 \<le> (of_char ch :: int) \<and> (of_char ch :: int) \<le> 57"

fun parse_digits :: "int \<Rightarrow> string \<Rightarrow> int option" where
  "parse_digits n [] = Some n"
| "parse_digits n (ch # s) =
     (if is_digit ch then parse_digits (n * 10 + (of_char ch - 48)) s else None)"

text \<open>
  \<^verbatim>\<open>strconv.Atoi\<close> returns the value and an error; the flag is \<open>True\<close> when the
  error is \<^verbatim>\<open>nil\<close>. A syntax error gives 0, a range error the nearest 64-bit bound.
\<close>

definition Atoi :: "string \<Rightarrow> int \<times> bool" where
  "Atoi s0 =
     (if s0 = [] then (0, False)
      else let neg = (hd s0 = CHR ''-'');
               s = (if hd s0 = CHR ''-'' \<or> hd s0 = CHR ''+'' then tl s0 else s0)
           in if s = [] then (0, False)
              else case parse_digits 0 s of
                     None \<Rightarrow> (0, False)
                   | Some n \<Rightarrow>
                       if neg then (if n \<le> 2 ^ 63 then (- n, True) else (- (2 ^ 63), False))
                       else (if n < 2 ^ 63 then (n, True) else (2 ^ 63 - 1, False)))"

subsection \<open>\<^verbatim>\<open>net.JoinHostPort\<close> and \<^verbatim>\<open>net.SplitHostPort\<close>\<close>

fun IndexByte :: "string \<Rightarrow> char \<Rightarrow> nat option" where
  "IndexByte [] c = None"
| "IndexByte (x # s) c = (if x = c then Some 0 else map_option Suc (IndexByte s c))"

definition LastIndexByte :: "string \<Rightarrow> char \<Rightarrow> nat option" where
  "LastIndexByte s c = map_option (\<lambda>k. length s - 1 - k) (IndexByte (rev s) c)"

text \<open>A host with a colon in it is taken for a literal IPv6 address and put in brackets.\<close>

definition JoinHostPort :: "string \<Rightarrow> string \<Rightarrow> string" where
  "JoinHostPort host port =
     (if IndexByte host CHR '':'' \<noteq> None
      then ''['' @ host @ '']:'' @ port
      else host @ '':'' @ port)"

datatype AddrError =
  missingPort | tooManyColons | missingBracket | unexpectedOpen | unexpectedClose

definition addrErr :: "AddrError \<Rightarrow> string \<times> string \<times> AddrError option" where
  "addrErr why = ('''', '''', Some why)"

text \<open>The port starts after the last colon; a bracketed host ends at the first \<open>]\<close>.\<close>

definition SplitHostPort :: "string \<Rightarrow> string \<times> string \<times> AddrError option" where
  "SplitHostPort hostport =
     (case LastIndexByte hostport CHR '':'' of
        None \<Rightarrow> addrErr missingPort
      | Some i \<Rightarrow>
          if hd hostport = CHR ''['' then
            (case IndexByte hostport CHR '']'' of
               None \<Rightarrow> addrErr missingBracket
             | Some end \<Rightarrow>
                 if end + 1 = length hostport then addrErr missingPort
                 else if end + 1 = i then
                   (if IndexByte (drop 1 hostport) CHR ''['' \<noteq> None then addrErr unexpectedOpen
                    else if IndexByte (drop (end + 1) hostport) CHR '']'' \<noteq> None
                      then addrErr unexpectedClose
                    else (take (end - 1) (drop 1 hostport), drop (i + 1) hostport, None))
                 else if hostport ! (end + 1) = CHR '':'' then addrErr tooManyColons
                 else addrErr missingPort)
          else
            (let host = take i hostport in
             if IndexByte host CHR '':'' \<noteq> None then addrErr tooManyColons
             else if IndexByte hostport CHR ''['' \<noteq> None then addrErr unexpectedOpen
             else if IndexByte hostport CHR '']'' \<noteq> None then addrErr unexpectedClose
             else (host, drop (i + 1) hostport, None)))"

subsection \<open>The SSH wire encoding (\<^verbatim>\<open>gossh.Marshal\<close>, \<^verbatim>\<open>gossh.Unmarshal\<close>)\<close>

text \<open>A \<^verbatim>\<open>uint32\<close> is four bytes, big-endian; a string is its length as a \<^verbatim>\<open>uint32\<close>, then its bytes.\<close>

definition Uint32 :: "bytes \<Rightarrow> uint32" where
  "Uint32 b = word_of_int (((of_char (b ! 0) * 256 + of_char (b ! 1)) * 256
                 + of_char (b ! 2)) * 256 + of_char (b ! 3))"

definition PutUint32 :: "uint32 \<Rightarrow> bytes" where
  "PutUint32 v = [char_of (uint v div 2 ^ 24), char_of (uint v div 2 ^ 16),
                  char_of (uint v div 2 ^ 8), char_of (uint v)]"

definition parseUint32 :: "bytes \<Rightarrow> (uint32 \<times> bytes) option" where
  "parseUint32 data = (if length data < 4 then None else Some (Uint32 data, drop 4 data))"

definition parseString :: "bytes \<Rightarrow> (string \<times> bytes) option" where
  "parseString data =
     (if length data < 4 then None
      else let len = Uint32 data; data' = drop 4 data
           in if (word_of_nat (length data') :: uint32) < len then None
              else Some (take (unat len) data', drop (unat len) data'))"

definition appendString :: "string \<Rightarrow> bytes" where
  "appendString s = PutUint32 (word_of_nat (length s)) @ s"

text \<open>
  \<^verbatim>\<open>var request struct { BindAddr string; BindPort uint32 }\<close>, and
  \<^verbatim>\<open>gossh.Unmarshal(req.Payload, &request)\<close>: the fields in order, and an error when a
  field is short or when bytes are left over.
\<close>

record request =
  BindAddr :: string
  BindPort :: uint32

definition Unmarshal_request :: "bytes \<Rightarrow> request option" where
  "Unmarshal_request data =
     (case parseString data of
        None \<Rightarrow> None
      | Some (s, data1) \<Rightarrow>
          (case parseUint32 data1 of
             None \<Rightarrow> None
           | Some (u32, data2) \<Rightarrow>
               if data2 \<noteq> [] then None else Some \<lparr>BindAddr = s, BindPort = u32\<rparr>))"

text \<open>What a client sends for a bind request: the same two fields, marshalled.\<close>

definition Marshal_request :: "request \<Rightarrow> bytes" where
  "Marshal_request r = appendString (BindAddr r) @ PutUint32 (BindPort r)"

text \<open>
  The payload of a \<^verbatim>\<open>forwarded-tcpip\<close> channel open:
  \<^verbatim>\<open>struct { DestAddr string; DestPort uint32; OriginAddr string; OriginPort uint32 }\<close>.
\<close>

definition Marshal_forward :: "string \<Rightarrow> uint32 \<Rightarrow> string \<Rightarrow> uint32 \<Rightarrow> bytes" where
  "Marshal_forward DestAddr DestPort OriginAddr OriginPort =
     appendString DestAddr @ PutUint32 DestPort @ appendString OriginAddr @ PutUint32 OriginPort"

subsection \<open>Listeners, connections and errors of package \<^verbatim>\<open>net\<close>\<close>

text \<open>A listener is known by its address, a \<^verbatim>\<open>*net.TCPAddr\<close>; \<open>IP\<close> is the printed host.\<close>

record listener =
  IP :: string
  Port :: int

definition Addr_String :: "listener \<Rightarrow> string" where
  "Addr_String ln = JoinHostPort (IP ln) (Itoa (Port ln))"

text \<open>An accepted socket, known by \<^verbatim>\<open>RemoteAddr().String()\<close>.\<close>

datatype conn = Conn string

fun RemoteAddr_String :: "conn \<Rightarrow> string" where
  "RemoteAddr_String (Conn a) = a"

datatype channel = Channel nat

text \<open>
  An error of \<^verbatim>\<open>ln.Accept()\<close>: a \<^verbatim>\<open>*net.OpError\<close> with what its methods
  \<^verbatim>\<open>Timeout()\<close> and \<^verbatim>\<open>Temporary()\<close> answer and its text, or an error of another
  type with its text. The loop asks the two methods of an \<^verbatim>\<open>*net.OpError\<close> only, so their
  values on another error are never used.
\<close>

datatype net_error = OpError bool bool string | OtherError string

fun is_OpError :: "net_error \<Rightarrow> bool" where
  "is_OpError (OpError timeout temporary msg) = True"
| "is_OpError (OtherError msg) = False"

fun Timeout :: "net_error \<Rightarrow> bool" where
  "Timeout (OpError timeout temporary msg) = timeout"
| "Timeout (OtherError msg) = False"

fun Temporary :: "net_error \<Rightarrow> bool" where
  "Temporary (OpError timeout temporary msg) = temporary"
| "Temporary (OtherError msg) = False"

fun Error :: "net_error \<Rightarrow> string" where
  "Error (OpError timeout temporary msg) = msg"
| "Error (OtherError msg) = msg"

text \<open>\<^verbatim>\<open>errors.Wrap(err, message).Error()\<close>.\<close>

definition Wrap :: "net_error \<Rightarrow> string \<Rightarrow> string" where
  "Wrap err message = message @ '': '' @ Error err"

text \<open>
  What the environment answers in one round of the accept loop: an accept error, or a
  socket together with the result of the \<^verbatim>\<open>OpenChannel\<close> call made for it.
\<close>

datatype open_result = OpenFailed string | Opened channel

datatype accept_result = AcceptError net_error | Accepted conn open_result

section \<open>The world the handler runs in\<close>

text \<open>
  Two copies of the server file are in the repository: \<^verbatim>\<open>ssh_server.go\<close>, where the
  accept loop is written inside the handler, and its refactoring, where the loop is the
  function \<^verbatim>\<open>tcpipForwardConnectionHandler\<close>. The handler is the same text in both up to
  the goroutine it starts.
\<close>

datatype variant = ssh_server_go | refactored

datatype goroutine =
    CloseOnDone listener
  | AcceptLoop variant listener request int
  | DiscardRequests "channel option"
  | CopyToChannel "channel option" conn
  | CopyToConn "channel option" conn

text \<open>
  The effects of the code, in the order it performs them: \<open>Listen addr r\<close> is the call
  \<^verbatim>\<open>net.Listen("tcp", addr)\<close> with its result (a socket is opened when \<open>r\<close> is \<open>Some\<close>),
  \<open>Send m\<close> a message handed over on the \<^verbatim>\<open>messages\<close> channel, \<open>Go g\<close> a \<^verbatim>\<open>go\<close>
  statement, \<open>Accept r\<close> a return of \<^verbatim>\<open>ln.Accept()\<close>.
\<close>

datatype event =
    Listen string "listener option"
  | Send string
  | CloseMessages
  | Go goroutine
  | Accept accept_result
  | OpenChannel string bytes
  | CloseConn conn
  | CloseChannel channel

datatype panic =
  CloseOfClosedChannel | SendOnClosedChannel | InterfaceConversion | NilDereference

text \<open>
  The state of one SSH connection. \<open>ctx_messages\<close>: the context value under
  \<^verbatim>\<open>"messages"\<close> is a \<^verbatim>\<open>chan string\<close>; \<open>ctx_conn\<close>: the value under
  \<^verbatim>\<open>ssh.ContextKeyConn\<close> is a \<^verbatim>\<open>*gossh.ServerConn\<close>; \<open>messages_closed\<close>: that channel
  has been closed; \<open>receiver\<close>: the session handler is receiving from it (the channel is
  made with \<^verbatim>\<open>make(chan string)\<close>, so a send completes only when it is received).
\<close>

record world =
  ctx_messages :: bool
  ctx_conn :: bool
  messages_closed :: bool
  receiver :: bool
  trace :: "event list"

definition emit :: "event \<Rightarrow> world \<Rightarrow> world" where
  "emit e w = w\<lparr>trace := trace w @ [e]\<rparr>"

datatype control = Normal | Panicking panic | Blocking

text \<open>\<^verbatim>\<open>messages <- msg\<close>: panics on a closed channel, blocks without a receiver.\<close>

definition send :: "string \<Rightarrow> world \<Rightarrow> control \<times> world" where
  "send msg w =
     (if messages_closed w then (Panicking SendOnClosedChannel, w)
      else if \<not> receiver w then (Blocking, w)
      else (Normal, emit (Send msg) w))"

text \<open>\<^verbatim>\<open>close(messages)\<close>: panics on a channel that is closed already.\<close>

definition close_messages :: "world \<Rightarrow> control \<times> world" where
  "close_messages w =
     (if messages_closed w then (Panicking CloseOfClosedChannel, w)
      else (Normal, emit CloseMessages (w\<lparr>messages_closed := True\<rparr>)))"

text \<open>
  \<^verbatim>\<open>func connectionWrapper() ssh.ConnCallback {
      return func(ctx ssh.Context, conn net.Conn) net.Conn {
          ctx.SetValue(messageChannelName, make(chan string))
          return conn } }\<close>
\<close>

definition connectionWrapper :: "world \<Rightarrow> world" where
  "connectionWrapper w = w\<lparr>ctx_messages := True, messages_closed := False\<rparr>"

section \<open>The request handler\<close>

datatype outcome = Returned bool bytes | Panicked panic | Hung

text \<open>
  A \<^verbatim>\<open>return ok, payload\<close> of the handler, followed by its deferred function
  \<^verbatim>\<open>defer func() { if !ok { close(messages) } }()\<close>.
\<close>

definition return_deferred :: "bool \<Rightarrow> bytes \<Rightarrow> world \<Rightarrow> outcome \<times> world" where
  "return_deferred ok payload w =
     (if \<not> ok then
        (case close_messages w of
           (Normal, w') \<Rightarrow> (Returned ok payload, w')
         | (Panicking p, w') \<Rightarrow> (Panicked p, w')
         | (Blocking, w') \<Rightarrow> (Hung, w'))
      else (Returned ok payload, w))"

text \<open>
  \<^verbatim>\<open>if messages, ok = ctx.Value(messageChannelName).(chan string); !ok {
      return false, []byte("internal server error") }
  defer func() { if !ok { close(messages) } }()
  sshConnection := ctx.Value(ssh.ContextKeyConn).(*gossh.ServerConn)
  if err = gossh.Unmarshal(req.Payload, &request); err != nil {
      return false, []byte{} }
  var ln net.Listener
  if request.BindPort != 22 && request.BindPort != 80 && request.BindPort != 443 {
      addr := net.JoinHostPort(request.BindAddr, strconv.Itoa(int(request.BindPort)))
      if ln, err = net.Listen("tcp", addr); err != nil {
          return false, []byte{}
      } else {
          messages <- fmt.Sprintf("forwarding traffic from %s", ln.Addr().String()) }
  } else {
      return false, []byte(fmt.Sprintf("forwarding %d not supported yet", request.BindPort)) }
  _, destPortStr, _ := net.SplitHostPort(ln.Addr().String())
  destPort, _ := strconv.Atoi(destPortStr)
  go func() { <-ctx.Done(); _ = ln.Close() }()
  go func() { ... the accept loop ... }()
  var response = struct{ BindPort uint32 }{uint32(destPort)}
  return true, gossh.Marshal(&response)\<close>
  The first return precedes the \<^verbatim>\<open>defer\<close>, so it closes nothing. The unchecked type
  assertion panics when the connection is missing from the context. \<open>net_Listen\<close> is
  the operating system's answer to \<^verbatim>\<open>net.Listen("tcp", addr)\<close>: \<open>None\<close> for an error.
  A panic in the send runs the deferred function with \<^verbatim>\<open>ok\<close> still true.
\<close>

definition tcpipForwardRequestHandler ::
  "variant \<Rightarrow> (string \<Rightarrow> listener option) \<Rightarrow> world \<Rightarrow> bytes \<Rightarrow> outcome \<times> world" where
  "tcpipForwardRequestHandler v net_Listen w payload =
     (if \<not> ctx_messages w then (Returned False ''internal server error'', w)
      else if \<not> ctx_conn w then (Panicked InterfaceConversion, w)
      else case Unmarshal_request payload of
        None \<Rightarrow> return_deferred False [] w
      | Some request \<Rightarrow>
          if BindPort request \<noteq> 22 \<and> BindPort request \<noteq> 80 \<and> BindPort request \<noteq> 443 then
            (let addr = JoinHostPort (BindAddr request) (Itoa (uint (BindPort request)));
                 w1 = emit (Listen addr (net_Listen addr)) w
             in case net_Listen addr of
                  None \<Rightarrow> return_deferred False [] w1
                | Some ln \<Rightarrow>
                    (case send (''forwarding traffic from '' @ Addr_String ln) w1 of
                       (Panicking p, w2) \<Rightarrow> (Panicked p, w2)
                     | (Blocking, w2) \<Rightarrow> (Hung, w2)
                     | (Normal, w2) \<Rightarrow>
                         (let destPortStr = fst (snd (SplitHostPort (Addr_String ln)));
                              destPort = fst (Atoi destPortStr);
                              w3 = emit (Go (CloseOnDone ln)) w2;
                              w4 = emit (Go (AcceptLoop v ln request destPort)) w3
                          in return_deferred True (PutUint32 (word_of_int destPort)) w4)))
          else return_deferred False
                 (''forwarding '' @ digits (uint (BindPort request)) @ '' not supported yet'') w)"

text \<open>The events of a run: what the trace gained.\<close>

definition new_events :: "world \<Rightarrow> world \<Rightarrow> event list" where
  "new_events w w' = drop (length (trace w)) (trace w')"

fun is_Send :: "event \<Rightarrow> bool" where
  "is_Send (Send m) = True"
| "is_Send e = False"

fun is_Accept :: "event \<Rightarrow> bool" where
  "is_Accept (Accept r) = True"
| "is_Accept e = False"

fun opens_socket :: "event \<Rightarrow> bool" where
  "opens_socket (Listen addr (Some ln)) = True"
| "opens_socket e = False"

section \<open>The accept loop\<close>

datatype go_outcome = Exited | GoPanicked panic | InSend | InAccept | InCopy

datatype loop_outcome = LoopReturned string | LoopPanicked panic | LoopInSend | LoopInAccept

text \<open>
  The closure \<^verbatim>\<open>newChannel\<close> of the refactored handler:
  \<^verbatim>\<open>p, _ := strconv.Atoi(port)
  var forward = struct{...}{ DestAddr: request.BindAddr, DestPort: uint32(destPort),
                             OriginAddr: addr, OriginPort: uint32(p) }
  return sshConnection.OpenChannel(tcpipForwardIncomingConnectionRequest, gossh.Marshal(&forward))\<close>
  The call is an event; its result is the environment's.
\<close>

definition newChannel :: "request \<Rightarrow> int \<Rightarrow> string \<Rightarrow> string \<Rightarrow> world \<Rightarrow> world" where
  "newChannel request destPort addr port w =
     (let p = fst (Atoi port)
      in emit (OpenChannel ''forwarded-tcpip''
                 (Marshal_forward (BindAddr request) (word_of_int destPort) addr (word_of_int p))) w)"

text \<open>
  \<^verbatim>\<open>go gossh.DiscardRequests(requests)
  go func() { defer channel.Close(); defer conn.Close(); _, _ = io.Copy(channel, conn) }()
  go func() { defer channel.Close(); defer conn.Close(); _, _ = io.Copy(conn, channel) }()\<close>
\<close>

definition start_relay :: "channel option \<Rightarrow> conn \<Rightarrow> world \<Rightarrow> world" where
  "start_relay channel conn w =
     emit (Go (CopyToConn channel conn))
       (emit (Go (CopyToChannel channel conn))
          (emit (Go (DiscardRequests channel)) w))"

text \<open>
  \<^verbatim>\<open>func tcpipForwardConnectionHandler(ln net.Listener, notify func(string), newChannel newChannelFn) error {
      for {
          var err error
          var conn net.Conn
          if conn, err = ln.Accept(); err != nil {
              if oe, ok := err.(*net.OpError); ok {
                  if oe.Timeout() || oe.Temporary() { continue } }
              return errors.Wrap(err, "failed to accept new connection") }
          addr, port, _ := net.SplitHostPort(conn.RemoteAddr().String())
          notify(fmt.Sprintf("accepted connection from %s:%s", addr, port))
          var channel gossh.Channel
          var requests <-chan *gossh.Request
          if channel, requests, err = newChannel(addr, port); err != nil {
              notify(fmt.Sprintf("error occurred while processing: %s", err.Error())) }
          go gossh.DiscardRequests(requests)
          go func() { ... io.Copy(channel, conn) }()
          go func() { ... io.Copy(conn, channel) }() } }\<close>
  The loop runs over what the environment answers, one answer for each round; when the
  answers are used up the loop is blocked in \<^verbatim>\<open>ln.Accept()\<close>. \<open>serve\<close> is the body of
  the loop from \<^verbatim>\<open>net.SplitHostPort\<close> on, for one accepted socket. After a failed
  \<^verbatim>\<open>newChannel\<close> there is no \<^verbatim>\<open>continue\<close>: the code goes on with a \<^verbatim>\<open>nil\<close> channel.
\<close>

definition serve :: "request \<Rightarrow> int \<Rightarrow> conn \<Rightarrow> open_result \<Rightarrow> world \<Rightarrow> control \<times> world" where
  "serve request destPort conn opened w =
     (let addr = fst (SplitHostPort (RemoteAddr_String conn));
          port = fst (snd (SplitHostPort (RemoteAddr_String conn)))
      in case send (''accepted connection from '' @ addr @ '':'' @ port) w of
           (Normal, w1) \<Rightarrow>
             (case opened of
                OpenFailed err \<Rightarrow>
                  (case send (''error occurred while processing: '' @ err)
                          (newChannel request destPort addr port w1) of
                     (Normal, w2) \<Rightarrow> (Normal, start_relay None conn w2)
                   | (Panicking p, w2) \<Rightarrow> (Panicking p, w2)
                   | (Blocking, w2) \<Rightarrow> (Blocking, w2))
              | Opened channel \<Rightarrow>
                  (Normal, start_relay (Some channel) conn
                             (newChannel request destPort addr port w1)))
         | (Panicking p, w1) \<Rightarrow> (Panicking p, w1)
         | (Blocking, w1) \<Rightarrow> (Blocking, w1))"

fun tcpipForwardConnectionHandler ::
  "request \<Rightarrow> int \<Rightarrow> accept_result list \<Rightarrow> world \<Rightarrow> loop_outcome \<times> world" where
  "tcpipForwardConnectionHandler request destPort [] w = (LoopInAccept, w)"
| "tcpipForwardConnectionHandler request destPort (AcceptError err # rest) w =
     (if is_OpError err \<and> (Timeout err \<or> Temporary err)
      then tcpipForwardConnectionHandler request destPort rest (emit (Accept (AcceptError err)) w)
      else (LoopReturned (Wrap err ''failed to accept new connection''),
            emit (Accept (AcceptError err)) w))"
| "tcpipForwardConnectionHandler request destPort (Accepted conn opened # rest) w =
     (case serve request destPort conn opened (emit (Accept (Accepted conn opened)) w) of
        (Normal, w1) \<Rightarrow> tcpipForwardConnectionHandler request destPort rest w1
      | (Panicking p, w1) \<Rightarrow> (LoopPanicked p, w1)
      | (Blocking, w1) \<Rightarrow> (LoopInSend, w1))"

text \<open>
  The goroutine the refactored handler starts:
  \<^verbatim>\<open>go func() {
      defer close(messages) // to close the session as well
      if err := tcpipForwardConnectionHandler(ln, notifier, newChannel); err != nil {
          messages <- fmt.Sprintf("error occurred while processing: %s", err.Error()) } }()\<close>
  When the send panics the channel is closed, and the deferred close panics as well.
\<close>

definition acceptGoroutine ::
  "request \<Rightarrow> int \<Rightarrow> accept_result list \<Rightarrow> world \<Rightarrow> go_outcome \<times> world" where
  "acceptGoroutine request destPort script w =
     (case tcpipForwardConnectionHandler request destPort script w of
        (LoopReturned err, w1) \<Rightarrow>
          (case send (''error occurred while processing: '' @ err) w1 of
             (Panicking p, w2) \<Rightarrow> (GoPanicked p, w2)
           | (Blocking, w2) \<Rightarrow> (InSend, w2)
           | (Normal, w2) \<Rightarrow>
               (case close_messages w2 of
                  (Normal, w3) \<Rightarrow> (Exited, w3)
                | (Panicking p, w3) \<Rightarrow> (GoPanicked p, w3)
                | (Blocking, w3) \<Rightarrow> (InSend, w3)))
      | (LoopPanicked p, w1) \<Rightarrow> (GoPanicked p, w1)
      | (LoopInSend, w1) \<Rightarrow> (InSend, w1)
      | (LoopInAccept, w1) \<Rightarrow> (InAccept, w1))"

text \<open>
  The loop as \<^verbatim>\<open>ssh_server.go\<close> has it, inside the handler's goroutine:
  \<^verbatim>\<open>for {
      c, err := ln.Accept()
      if err != nil {
          messages <- "error occurred while accepting connection" + newline
          break }
      originAddr, originPortStr, _ := net.SplitHostPort(c.RemoteAddr().String())
      originPort, _ := strconv.Atoi(originPortStr)
      var forward = struct{...}{ DestAddr: request.BindAddr, DestPort: uint32(destPort),
                                 OriginAddr: originAddr, OriginPort: uint32(originPort) }
      payload := gossh.Marshal(&forward)
      messages <- fmt.Sprintf("accepted connection from %s:%d", originAddr, originPort)
      ch, reqs, err := sshConnection.OpenChannel(tcpipForwardIncomingConnectionRequest, payload)
      if err != nil {
          messages <- "error occurred while forwarding connection"
          c.Close()
          break }
      go gossh.DiscardRequests(reqs)
      go func() { ... io.Copy(ch, c) }()
      go func() { ... io.Copy(c, ch) }() }
  close(messages) // to close the session as well\<close>
  \<open>Exited\<close> from the loop function is the \<^verbatim>\<open>break\<close>.
\<close>

fun acceptLoop_ssh_server_go ::
  "request \<Rightarrow> int \<Rightarrow> accept_result list \<Rightarrow> world \<Rightarrow> go_outcome \<times> world" where
  "acceptLoop_ssh_server_go request destPort [] w = (InAccept, w)"
| "acceptLoop_ssh_server_go request destPort (AcceptError err # rest) w =
     (case send (''error occurred while accepting connection'' @ [CHR 0x0A])
             (emit (Accept (AcceptError err)) w) of
        (Panicking p, w1) \<Rightarrow> (GoPanicked p, w1)
      | (Blocking, w1) \<Rightarrow> (InSend, w1)
      | (Normal, w1) \<Rightarrow> (Exited, w1))"
| "acceptLoop_ssh_server_go request destPort (Accepted c opened # rest) w =
     (let w0 = emit (Accept (Accepted c opened)) w;
          originAddr = fst (SplitHostPort (RemoteAddr_String c));
          originPortStr = fst (snd (SplitHostPort (RemoteAddr_String c)));
          originPort = fst (Atoi originPortStr);
          payload = Marshal_forward (BindAddr request) (word_of_int destPort)
                      originAddr (word_of_int originPort)
      in case send (''accepted connection from '' @ originAddr @ '':'' @ Itoa originPort) w0 of
           (Panicking p, w1) \<Rightarrow> (GoPanicked p, w1)
         | (Blocking, w1) \<Rightarrow> (InSend, w1)
         | (Normal, w1) \<Rightarrow>
             (case opened of
                OpenFailed err \<Rightarrow>
                  (case send ''error occurred while forwarding connection''
                          (emit (OpenChannel ''forwarded-tcpip'' payload) w1) of
                     (Panicking p, w2) \<Rightarrow> (GoPanicked p, w2)
                   | (Blocking, w2) \<Rightarrow> (InSend, w2)
                   | (Normal, w2) \<Rightarrow> (Exited, emit (CloseConn c) w2))
              | Opened ch \<Rightarrow>
                  acceptLoop_ssh_server_go request destPort rest
                    (start_relay (Some ch) c (emit (OpenChannel ''forwarded-tcpip'' payload) w1))))"

definition acceptGoroutine_ssh_server_go ::
  "request \<Rightarrow> int \<Rightarrow> accept_result list \<Rightarrow> world \<Rightarrow> go_outcome \<times> world" where
  "acceptGoroutine_ssh_server_go request destPort script w =
     (case acceptLoop_ssh_server_go request destPort script w of
        (Exited, w1) \<Rightarrow>
          (case close_messages w1 of
             (Normal, w2) \<Rightarrow> (Exited, w2)
           | (Panicking p, w2) \<Rightarrow> (GoPanicked p, w2)
           | (Blocking, w2) \<Rightarrow> (InSend, w2))
      | (out, w1) \<Rightarrow> (out, w1))"

section \<open>The relay of one accepted socket\<close>

text \<open>
  The two goroutines of a relay share the socket and the channel. \<open>ToChannel\<close> is
  \<^verbatim>\<open>io.Copy(channel, conn)\<close>, which reads the socket; \<open>ToConn\<close> is
  \<^verbatim>\<open>io.Copy(conn, channel)\<close>, which reads the channel.
\<close>

datatype direction = ToChannel | ToConn

datatype copy_end = EOF | ReadError | WriteError

record relay =
  conn_closed :: bool
  channel_closed :: bool
  exited :: "direction list"
  closes :: "event list"

fun source_closed :: "direction \<Rightarrow> relay \<Rightarrow> bool" where
  "source_closed ToChannel s = conn_closed s"
| "source_closed ToConn s = channel_closed s"

text \<open>
  When \<^verbatim>\<open>io.Copy\<close> comes back: a read from an endpoint that has been closed fails at
  once; on an open one the copy ends when the peer lets it (\<open>env\<close> is \<open>Some\<close>: end of
  input or an I/O error) and is blocked until then (\<open>None\<close>).
\<close>

definition io_Copy :: "direction \<Rightarrow> copy_end option \<Rightarrow> relay \<Rightarrow> copy_end option" where
  "io_Copy d env s = (if source_closed d s then Some ReadError else env)"

text \<open>
  \<^verbatim>\<open>go func() {
      defer channel.Close()
      defer conn.Close()
      _, _ = io.Copy(channel, conn) }()\<close>
  and the same with the arguments of \<^verbatim>\<open>io.Copy\<close> exchanged. Taking the method
  \<^verbatim>\<open>Close\<close> of a \<^verbatim>\<open>nil\<close> channel panics in the first \<^verbatim>\<open>defer\<close>. The deferred calls run
  last in, first out, and the result of the copy is dropped.
\<close>

definition copyGoroutine ::
  "direction \<Rightarrow> channel option \<Rightarrow> conn \<Rightarrow> copy_end option \<Rightarrow> relay \<Rightarrow> go_outcome \<times> relay" where
  "copyGoroutine d channel conn env s =
     (case channel of
        None \<Rightarrow> (GoPanicked NilDereference, s)
      | Some ch \<Rightarrow>
          (case io_Copy d env s of
             None \<Rightarrow> (InCopy, s)
           | Some r \<Rightarrow>
               (Exited, s\<lparr>conn_closed := True, channel_closed := True,
                           exited := exited s @ [d],
                           closes := closes s @ [CloseConn conn, CloseChannel ch]\<rparr>)))"

text \<open>
  Any interleaving of the two goroutines: a schedule gives a goroutine its turn, with
  what the peer lets its copy see; a goroutine that has exited does nothing more.
\<close>

fun run_relay :: "channel \<Rightarrow> conn \<Rightarrow> (direction \<times> copy_end option) list \<Rightarrow> relay \<Rightarrow> relay" where
  "run_relay ch conn [] s = s"
| "run_relay ch conn ((d, env) # sched) s =
     run_relay ch conn sched
       (if d \<in> set (exited s) then s else snd (copyGoroutine d (Some ch) conn env s))"

definition new_relay :: relay where
  "new_relay = \<lparr>conn_closed = False, channel_closed = False, exited = [], closes = []\<rparr>"

text \<open>
  The two endpoints of a relay are open or closed together, and they are closed exactly
  from the moment the first of the two goroutines has exited.
\<close>

definition closed_together :: "relay \<Rightarrow> bool" where
  "closed_together s \<longleftrightarrow>
     (conn_closed s \<longleftrightarrow> channel_closed s) \<and> (conn_closed s \<longleftrightarrow> exited s \<noteq> [])"

section \<open>Concrete connections for the examples\<close>

text \<open>A fresh connection after \<^verbatim>\<open>connectionWrapper\<close>, with a session reading the messages.\<close>

definition live_world :: world where
  "live_world = connectionWrapper
     \<lparr>ctx_messages = False, ctx_conn = True, messages_closed = False, receiver = True, trace = []\<rparr>"

text \<open>
  A host where binding \<open>0.0.0.0:0\<close> gives port 40000, port 23 can be bound, and
  everything else is refused.
\<close>

definition example_host :: "string \<Rightarrow> listener option" where
  "example_host addr =
     (if addr = ''0.0.0.0:0'' then Some \<lparr>IP = ''0.0.0.0'', Port = 40000\<rparr>
      else if addr = ''0.0.0.0:23'' then Some \<lparr>IP = ''0.0.0.0'', Port = 23\<rparr>
      else None)"

definition bind_payload :: "uint32 \<Rightarrow> bytes" where
  "bind_payload port = Marshal_request \<lparr>BindAddr = ''0.0.0.0'', BindPort = port\<rparr>"

definition example_request :: request where
  "example_request = \<lparr>BindAddr = ''0.0.0.0'', BindPort = 0\<rparr>"

definition example_conn :: conn where
  "example_conn = Conn ''10.0.0.7:5555''"



section \<open>Statements about a run of the handler\<close>

text \<open>
  The three causes for which the handler rejects after it has the messages channel: a
  payload that does not decode, one of the ports 22, 80, 443, or a failing
  \<^verbatim>\<open>net.Listen\<close>.
\<close>

definition rejects :: "(string \<Rightarrow> listener option) \<Rightarrow> bytes \<Rightarrow> bool" where
  "rejects net_Listen payload \<longleftrightarrow>
     (case Unmarshal_request payload of
        None \<Rightarrow> True
      | Some rq \<Rightarrow>
          BindPort rq = 22 \<or> BindPort rq = 80 \<or> BindPort rq = 443
          \<or> net_Listen (JoinHostPort (BindAddr rq) (Itoa (uint (BindPort rq)))) = None)"

section \<open>Executions: the handler and the goroutine it starts\<close>

text \<open>
  What a client and the session can observe of one request: the effects, and the reply the
  server sends when the handler has returned.
\<close>

datatype action = Did event | Replied bool bytes

fun is_Replied :: "action \<Rightarrow> bool" where
  "is_Replied (Replied ok payload) = True"
| "is_Replied (Did e) = False"

fun notifies :: "action \<Rightarrow> bool" where
  "notifies (Did (Send m)) = True"
| "notifies a = False"

fun accepts :: "action \<Rightarrow> bool" where
  "accepts (Did (Accept (Accepted c r))) = True"
| "accepts a = False"

text \<open>
  Two sequences of steps run concurrently: the schedule says whose step is next
  (\<open>True\<close> for the first). When one of them has no step left, or the schedule is used up,
  the rest follows in order. Every interleaving is the result of some schedule.
\<close>

fun interleave :: "bool list \<Rightarrow> 'a list \<Rightarrow> 'a list \<Rightarrow> 'a list" where
  "interleave sched [] ys = ys"
| "interleave sched (x # xs) [] = x # xs"
| "interleave [] (x # xs) (y # ys) = x # xs @ y # ys"
| "interleave (True # sched) (x # xs) (y # ys) = x # interleave sched xs (y # ys)"
| "interleave (False # sched) (x # xs) (y # ys) = y # interleave sched (x # xs) ys"

text \<open>The accept loop a run of the handler has started, if it has started one.\<close>

fun spawned_loop :: "event list \<Rightarrow> (variant \<times> listener \<times> request \<times> int) option" where
  "spawned_loop [] = None"
| "spawned_loop (Go (AcceptLoop v ln rq dp) # es) = Some (v, ln, rq, dp)"
| "spawned_loop (e # es) = spawned_loop es"

fun accept_goroutine ::
  "variant \<Rightarrow> request \<Rightarrow> int \<Rightarrow> accept_result list \<Rightarrow> world \<Rightarrow> go_outcome \<times> world" where
  "accept_goroutine refactored rq dp script w = acceptGoroutine rq dp script w"
| "accept_goroutine ssh_server_go rq dp script w = acceptGoroutine_ssh_server_go rq dp script w"

definition goroutine_events :: "event list \<Rightarrow> accept_result list \<Rightarrow> world \<Rightarrow> event list" where
  "goroutine_events es script w =
     (case spawned_loop es of
        None \<Rightarrow> []
      | Some (v, ln, rq, dp) \<Rightarrow> new_events w (snd (accept_goroutine v rq dp script w)))"

fun reply :: "outcome \<Rightarrow> action list" where
  "reply (Returned ok payload) = [Replied ok payload]"
| "reply out = []"

text \<open>
  An execution of one request. The handler's effects come in program order. The
  \<^verbatim>\<open>go\<close> statement that starts the accept loop is the last of them; from there on
  nothing orders the steps of that goroutine against the handler's \<^verbatim>\<open>return\<close> and the
  reply that follows it, so they interleave as the scheduler decides. \<open>script\<close> is what
  the environment answers to the accept loop.
\<close>

definition execution ::
  "variant \<Rightarrow> (string \<Rightarrow> listener option) \<Rightarrow> world \<Rightarrow> bytes \<Rightarrow> accept_result list \<Rightarrow> bool list
     \<Rightarrow> action list" where
  "execution v net_Listen w payload script sched =
     (let run = tcpipForwardRequestHandler v net_Listen w payload;
          es = new_events w (snd run)
      in map Did es @
         interleave sched (reply (fst run)) (map Did (goroutine_events es script (snd run))))"

text \<open>
  The two orderings of the reply: no notification before the reply, and no connection
  accepted before the reply.
\<close>

definition reply_before_notifications :: "action list \<Rightarrow> bool" where
  "reply_before_notifications ex \<longleftrightarrow> filter notifies (takeWhile (\<lambda>a. \<not> is_Replied a) ex) = []"

definition reply_before_accepts :: "action list \<Rightarrow> bool" where
  "reply_before_accepts ex \<longleftrightarrow> filter accepts (takeWhile (\<lambda>a. \<not> is_Replied a) ex) = []"

section \<open>Properties of the port policy\<close>

text \<open>
  C1. For every 32-bit port \<open>p\<close> the policy predicate is true exactly when \<open>p = 0\<close>, or
  \<open>p > 1024\<close> and \<open>p\<close> is none of 22, 80, 443; this is the same as \<open>p = 0 \<or> p > 1024\<close>.
  The predicate is a total function into \<open>bool\<close>: it has a value at every port.
\<close>

theorem allowTCPForwarding_iff:
  "(allowTCPForwarding p \<longleftrightarrow> (p = 0 \<or> (1024 < p \<and> p \<noteq> 22 \<and> p \<noteq> 80 \<and> p \<noteq> 443)))
   \<and> (allowTCPForwarding p \<longleftrightarrow> (p = 0 \<or> 1024 < p))
   \<and> (allowTCPForwarding p \<longleftrightarrow> (unat p = 0 \<or> 1024 < unat p))"
proof -
  have reserved: "p \<noteq> 22 \<and> p \<noteq> 80 \<and> p \<noteq> 443" if "1024 < p"
    using that by auto
  have un: "(1024 < p) = (1024 < unat p)"
    by (simp add: word_less_nat_alt)
  have z: "(p = 0) = (unat p = 0)"
    by (simp add: unat_eq_0)
  have a: "allowTCPForwarding p \<longleftrightarrow> (p = 0 \<or> 1024 < p)"
    unfolding allowTCPForwarding_def using reserved by auto
  from a reserved un z show ?thesis
    by metis
qed

theorem allowTCPForwarding_iff_witness:
  "allowTCPForwarding 0 \<and> allowTCPForwarding 8080 \<and> \<not> allowTCPForwarding 443
   \<and> \<not> allowTCPForwarding 1024 \<and> allowTCPForwarding 1025 \<and> \<not> allowTCPForwarding 23"
  using allowTCPForwarding_iff [of 0] allowTCPForwarding_iff [of 8080]
    allowTCPForwarding_iff [of 443] allowTCPForwarding_iff [of 1024]
    allowTCPForwarding_iff [of 1025] allowTCPForwarding_iff [of 23]
  by simp

section \<open>Facts about the library functions\<close>

lemma is_digit_digit_char: "0 \<le> d \<Longrightarrow> d < 10 \<Longrightarrow> is_digit (digit_char d)"
  by (simp add: is_digit_def digit_char_def)

lemma val_digit_char: "0 \<le> d \<Longrightarrow> d < 10 \<Longrightarrow> (of_char (digit_char d) :: int) - 48 = d"
  by (simp add: digit_char_def)

lemma parse_digits_append:
  "parse_digits n (s @ t) = (case parse_digits n s of None \<Rightarrow> None | Some m \<Rightarrow> parse_digits m t)"
  by (induction s arbitrary: n) auto

lemma parse_digits_digits: "0 \<le> n \<Longrightarrow> parse_digits 0 (digits n) = Some n"
proof (induction n rule: digits.induct)
  case (1 n)
  show ?case
  proof (cases "n < 10")
    case True
    with 1(2) show ?thesis
      by (simp add: digits.simps [of n] is_digit_digit_char val_digit_char)
  next
    case False
    with 1 have "parse_digits 0 (digits (n div 10)) = Some (n div 10)" by simp
    with False 1(2) show ?thesis
      by (simp add: digits.simps [of n] parse_digits_append is_digit_digit_char val_digit_char)
  qed
qed

lemma digits_nonempty: "digits n \<noteq> []"
  by (subst digits.simps) simp

lemma digits_are_digits: "0 \<le> n \<Longrightarrow> ch \<in> set (digits n) \<Longrightarrow> is_digit ch"
proof (induction n rule: digits.induct)
  case (1 n)
  show ?case
  proof (cases "n < 10")
    case True
    with 1(2,3) show ?thesis
      by (simp add: digits.simps [of n] is_digit_digit_char)
  next
    case False
    with 1 show ?thesis
      by (auto simp: digits.simps [of n] is_digit_digit_char)
  qed
qed

text \<open>Reading back a printed number gives the number, without an error.\<close>

lemma Atoi_Itoa:
  assumes "0 \<le> n" and "n < 2 ^ 63"
  shows "Atoi (Itoa n) = (n, True)"
proof -
  have "is_digit (hd (digits n))"
    using digits_are_digits [of n "hd (digits n)"] digits_nonempty [of n] assms(1) by simp
  then have "hd (digits n) \<noteq> CHR ''-''" "hd (digits n) \<noteq> CHR ''+''"
    by (auto simp: is_digit_def)
  then show ?thesis
    using assms by (simp add: Atoi_def Itoa_def digits_nonempty parse_digits_digits)
qed

lemma IndexByte_None_iff: "IndexByte s c = None \<longleftrightarrow> c \<notin> set s"
  by (induction s) auto

lemma IndexByte_first: "c \<notin> set s \<Longrightarrow> IndexByte (s @ c # t) c = Some (length s)"
  by (induction s) auto

lemma LastIndexByte_last: "c \<notin> set t \<Longrightarrow> LastIndexByte (s @ c # t) c = Some (length s)"
  using IndexByte_first [of c "rev t" "rev s"] by (simp add: LastIndexByte_def)

lemma Split_plain:
  assumes "CHR '':'' \<notin> set h" "CHR ''['' \<notin> set h" "CHR '']'' \<notin> set h"
    and "CHR '':'' \<notin> set p" "CHR ''['' \<notin> set p" "CHR '']'' \<notin> set p"
  shows "SplitHostPort (h @ '':'' @ p) = (h, p, None)"
proof -
  have i: "LastIndexByte (h @ '':'' @ p) CHR '':'' = Some (length h)"
    using LastIndexByte_last [of "CHR '':''" p h] assms(4) by simp
  have hd: "hd (h @ '':'' @ p) \<noteq> CHR ''[''"
    using assms(2) by (cases h) auto
  have nb: "IndexByte (h @ '':'' @ p) CHR ''['' = None" "IndexByte (h @ '':'' @ p) CHR '']'' = None"
    "IndexByte h CHR '':'' = None"
    using assms by (simp_all add: IndexByte_None_iff)
  show ?thesis
    unfolding SplitHostPort_def i using hd nb by simp
qed

lemma Split_bracket:
  assumes "CHR ''['' \<notin> set h" "CHR '']'' \<notin> set h"
    and "CHR '':'' \<notin> set p" "CHR ''['' \<notin> set p" "CHR '']'' \<notin> set p"
  shows "SplitHostPort (''['' @ h @ '']:'' @ p) = (h, p, None)"
proof -
  let ?s = "''['' @ h @ '']:'' @ p"
  have i: "LastIndexByte ?s CHR '':'' = Some (length h + 2)"
    using LastIndexByte_last [of "CHR '':''" p "''['' @ h @ '']''"] assms(3) by simp
  have e: "IndexByte ?s CHR '']'' = Some (length h + 1)"
    using IndexByte_first [of "CHR '']''" "''['' @ h" "'':'' @ p"] assms(2) by simp
  have nb: "IndexByte (drop 1 ?s) CHR ''['' = None"
    "IndexByte (drop (length h + 1 + 1) ?s) CHR '']'' = None"
    using assms by (simp_all add: IndexByte_None_iff)
  have t: "take (length h + 1 - 1) (drop 1 ?s) = h" "drop (length h + 2 + 1) ?s = p"
    by simp_all
  show ?thesis
    unfolding SplitHostPort_def i e using nb t by simp
qed

lemma Split_Join:
  assumes "CHR ''['' \<notin> set h" "CHR '']'' \<notin> set h"
    and "CHR '':'' \<notin> set p" "CHR ''['' \<notin> set p" "CHR '']'' \<notin> set p"
  shows "SplitHostPort (JoinHostPort h p) = (h, p, None)"
proof (cases "IndexByte h CHR '':'' \<noteq> None")
  case True
  then show ?thesis
    using Split_bracket [OF assms] by (simp add: JoinHostPort_def)
next
  case False
  then have "CHR '':'' \<notin> set h" by (simp add: IndexByte_None_iff)
  then show ?thesis
    using False Split_plain [of h p] assms by (simp add: JoinHostPort_def)
qed

lemma digit_not_separator:
  "is_digit ch \<Longrightarrow> ch \<noteq> CHR '':'' \<and> ch \<noteq> CHR ''['' \<and> ch \<noteq> CHR '']''"
  by (auto simp: is_digit_def)

lemma Split_Join_Itoa:
  assumes "CHR ''['' \<notin> set h" "CHR '']'' \<notin> set h" "0 \<le> n"
  shows "SplitHostPort (JoinHostPort h (Itoa n)) = (h, Itoa n, None)"
proof -
  have "\<And>ch. ch \<in> set (Itoa n) \<Longrightarrow> is_digit ch"
    using digits_are_digits [of n] assms(3) by (simp add: Itoa_def)
  then have "CHR '':'' \<notin> set (Itoa n)" "CHR ''['' \<notin> set (Itoa n)" "CHR '']'' \<notin> set (Itoa n)"
    using digit_not_separator by blast+
  with assms show ?thesis
    by (intro Split_Join)
qed

text \<open>The port the handler reads from the listener's printed address is the listener's.\<close>

lemma destPort_of_listener:
  assumes "CHR ''['' \<notin> set (IP ln)" "CHR '']'' \<notin> set (IP ln)" "0 \<le> Port ln" "Port ln < 2 ^ 63"
  shows "fst (Atoi (fst (snd (SplitHostPort (Addr_String ln))))) = Port ln"
  using Split_Join_Itoa [OF assms(1,2,3)] Atoi_Itoa [OF assms(3,4)]
  by (simp add: Addr_String_def)

lemma bytes_of_int32:
  fixes n :: int
  assumes "0 \<le> n" "n < 2 ^ 32"
  shows "((n div 2 ^ 24 mod 256 * 256 + n div 2 ^ 16 mod 256) * 256 + n div 2 ^ 8 mod 256) * 256
           + n mod 256 = n"
proof -
  define q1 where "q1 = n div 256"
  define q2 where "q2 = q1 div 256"
  define q3 where "q3 = q2 div 256"
  define r1 where "r1 = n mod 256"
  define r2 where "r2 = q1 mod 256"
  define r3 where "r3 = q2 mod 256"
  have d: "n div 2 ^ 8 = q1" "n div 2 ^ 16 = q2" "n div 2 ^ 24 = q3"
    unfolding q1_def q2_def q3_def using assms(1) by (simp_all add: zdiv_zmult2_eq)
  have e1: "n = q1 * 256 + r1" unfolding q1_def r1_def by simp
  have e2: "q1 = q2 * 256 + r2" unfolding q2_def r2_def by simp
  have e3: "q2 = q3 * 256 + r3" unfolding q3_def r3_def by simp
  have "q3 < 256" "0 \<le> q3"
    unfolding d(3) [symmetric] using assms by simp_all
  then have e4: "q3 mod 256 = q3" by simp
  have "((q3 * 256 + r3) * 256 + r2) * 256 + r1 = n"
    using e1 e2 e3 by simp
  then show ?thesis
    unfolding d e4 r1_def r2_def r3_def .
qed

lemma Uint32_PutUint32: "Uint32 (PutUint32 v) = v"
proof -
  have "0 \<le> uint v" "uint v < 2 ^ 32"
    using uint_bounded [of v] by simp_all
  then have e: "((uint v div 2 ^ 24 mod 256 * 256 + uint v div 2 ^ 16 mod 256) * 256
      + uint v div 2 ^ 8 mod 256) * 256 + uint v mod 256 = uint v"
    by (rule bytes_of_int32)
  have "Uint32 (PutUint32 v) =
      word_of_int (((uint v div 2 ^ 24 mod 256 * 256 + uint v div 2 ^ 16 mod 256) * 256
        + uint v div 2 ^ 8 mod 256) * 256 + uint v mod 256)"
    unfolding Uint32_def PutUint32_def
    by (simp only: nth_Cons_0 nth_Cons_numeral nth_Cons_Suc One_nat_def of_char_of
        pred_numeral_simps numeral_2_eq_2 numeral_3_eq_3 diff_Suc_1)
  then show ?thesis
    unfolding e by simp
qed

text \<open>The marshalled response decodes to the port that was put in it.\<close>

lemma parseUint32_PutUint32: "parseUint32 (PutUint32 v) = Some (v, [])"
  using Uint32_PutUint32 [of v] by (simp add: parseUint32_def PutUint32_def)

lemma digits_22: "digits 22 = ''22''"
  by code_simp

lemma digits_80: "digits 80 = ''80''"
  by code_simp

lemma digits_443: "digits 443 = ''443''"
  by code_simp

section \<open>The paths through the request handler\<close>

lemma handler_success:
  assumes ctx: "ctx_messages w" "ctx_conn w"
    and chan: "\<not> messages_closed w" "receiver w"
    and req: "Unmarshal_request payload = Some rq"
    and port: "BindPort rq \<noteq> 22" "BindPort rq \<noteq> 80" "BindPort rq \<noteq> 443"
    and ln: "net_Listen (JoinHostPort (BindAddr rq) (Itoa (uint (BindPort rq)))) = Some ln"
    and addr: "CHR ''['' \<notin> set (IP ln)" "CHR '']'' \<notin> set (IP ln)" "0 \<le> Port ln" "Port ln < 2 ^ 63"
  shows "tcpipForwardRequestHandler v net_Listen w payload =
          (Returned True (PutUint32 (word_of_int (Port ln))),
           w\<lparr>trace := trace w @
              [Listen (JoinHostPort (BindAddr rq) (Itoa (uint (BindPort rq)))) (Some ln),
               Send (''forwarding traffic from '' @ Addr_String ln),
               Go (CloseOnDone ln),
               Go (AcceptLoop v ln rq (Port ln))]\<rparr>)"
  unfolding tcpipForwardRequestHandler_def
  using ctx chan req port ln destPort_of_listener [OF addr]
  by (simp add: Let_def send_def emit_def return_deferred_def)

lemma handler_reserved:
  assumes ctx: "ctx_messages w" "ctx_conn w"
    and chan: "\<not> messages_closed w"
    and req: "Unmarshal_request payload = Some rq"
    and port: "BindPort rq = 22 \<or> BindPort rq = 80 \<or> BindPort rq = 443"
  shows "tcpipForwardRequestHandler v net_Listen w payload =
          (Returned False (''forwarding '' @ digits (uint (BindPort rq)) @ '' not supported yet''),
           w\<lparr>messages_closed := True, trace := trace w @ [CloseMessages]\<rparr>)"
  unfolding tcpipForwardRequestHandler_def
  using ctx chan req port
  by (auto simp add: Let_def emit_def return_deferred_def close_messages_def)

lemma handler_malformed:
  assumes ctx: "ctx_messages w" "ctx_conn w"
    and chan: "\<not> messages_closed w"
    and req: "Unmarshal_request payload = None"
  shows "tcpipForwardRequestHandler v net_Listen w payload =
          (Returned False [], w\<lparr>messages_closed := True, trace := trace w @ [CloseMessages]\<rparr>)"
  unfolding tcpipForwardRequestHandler_def
  using ctx chan req
  by (simp add: emit_def return_deferred_def close_messages_def)

lemma handler_bind_failure:
  assumes ctx: "ctx_messages w" "ctx_conn w"
    and chan: "\<not> messages_closed w"
    and req: "Unmarshal_request payload = Some rq"
    and port: "BindPort rq \<noteq> 22" "BindPort rq \<noteq> 80" "BindPort rq \<noteq> 443"
    and ln: "net_Listen (JoinHostPort (BindAddr rq) (Itoa (uint (BindPort rq)))) = None"
  shows "tcpipForwardRequestHandler v net_Listen w payload =
          (Returned False [],
           w\<lparr>messages_closed := True,
              trace := trace w @
                [Listen (JoinHostPort (BindAddr rq) (Itoa (uint (BindPort rq)))) None,
                 CloseMessages]\<rparr>)"
  unfolding tcpipForwardRequestHandler_def
  using ctx chan req port ln
  by (simp add: Let_def emit_def return_deferred_def close_messages_def)

lemma handler_blocked:
  assumes ctx: "ctx_messages w" "ctx_conn w"
    and chan: "\<not> messages_closed w" "\<not> receiver w"
    and req: "Unmarshal_request payload = Some rq"
    and port: "BindPort rq \<noteq> 22" "BindPort rq \<noteq> 80" "BindPort rq \<noteq> 443"
    and ln: "net_Listen (JoinHostPort (BindAddr rq) (Itoa (uint (BindPort rq)))) = Some ln"
  shows "tcpipForwardRequestHandler v net_Listen w payload =
          (Hung,
           w\<lparr>trace := trace w @
              [Listen (JoinHostPort (BindAddr rq) (Itoa (uint (BindPort rq)))) (Some ln)]\<rparr>)"
  unfolding tcpipForwardRequestHandler_def
  using ctx chan req port ln
  by (simp add: Let_def send_def emit_def)

lemma handler_success_needs:
  "fst (tcpipForwardRequestHandler v net_Listen w payload) = Returned True p \<Longrightarrow>
   ctx_messages w \<and> ctx_conn w \<and> \<not> messages_closed w \<and> receiver w"
  unfolding tcpipForwardRequestHandler_def
  by (auto simp: Let_def return_deferred_def close_messages_def send_def emit_def
      split: option.splits if_splits)

text \<open>The examples, evaluated.\<close>

lemma live_world_eq:
  "live_world = \<lparr>ctx_messages = True, ctx_conn = True, messages_closed = False,
                  receiver = True, trace = []\<rparr>"
  by (simp add: live_world_def connectionWrapper_def)

lemma Unmarshal_bind_payload_0:
  "Unmarshal_request (bind_payload 0) = Some \<lparr>BindAddr = ''0.0.0.0'', BindPort = 0\<rparr>"
  by code_simp

lemma Unmarshal_bind_payload_22:
  "Unmarshal_request (bind_payload 22) = Some \<lparr>BindAddr = ''0.0.0.0'', BindPort = 22\<rparr>"
  by code_simp

lemma Unmarshal_truncated: "Unmarshal_request ''abc'' = None"
  by code_simp

lemma Itoa_0: "Itoa (uint (0 :: uint32)) = ''0''"
  by code_simp

lemma new_events_append [simp]: "new_events w (w\<lparr>trace := trace w @ es\<rparr>) = es"
  by (simp add: new_events_def)

lemma new_events_closed_append [simp]:
  "new_events w (w\<lparr>messages_closed := b, trace := trace w @ es\<rparr>) = es"
  by (simp add: new_events_def)

lemma new_events_same [simp]: "new_events w w = []"
  by (simp add: new_events_def)

section \<open>Rejections\<close>

text \<open>
  While the messages channel is open, a request for port 22, 80 or 443 is answered as
  the code intends: \<open>false\<close> with the text \<open>forwarding <port> not supported yet\<close>, and
  \<^verbatim>\<open>net.Listen\<close> is not called; the only effect is the deferred close of the channel.
\<close>

lemma reserved_port_rejected:
  assumes "ctx_messages w" and "ctx_conn w" and "\<not> messages_closed w"
    and "Unmarshal_request payload = Some rq"
    and "BindPort rq = 22 \<or> BindPort rq = 80 \<or> BindPort rq = 443"
  shows "fst (tcpipForwardRequestHandler v net_Listen w payload) =
           Returned False
             (''forwarding '' @
              (if BindPort rq = 22 then ''22'' else if BindPort rq = 80 then ''80'' else ''443'') @
              '' not supported yet'')
       \<and> new_events w (snd (tcpipForwardRequestHandler v net_Listen w payload)) = [CloseMessages]
       \<and> filter opens_socket
            (new_events w (snd (tcpipForwardRequestHandler v net_Listen w payload))) = []"
proof -
  have "digits (uint (BindPort rq)) =
      (if BindPort rq = 22 then ''22'' else if BindPort rq = 80 then ''80'' else ''443'')"
    using assms(5) digits_22 digits_80 digits_443 by auto
  then show ?thesis
    using handler_reserved [OF assms, of v net_Listen] by simp
qed

text \<open>
  C3. The claim fails on a connection that has had a rejected request before. The first
  rejection closed the messages channel; a request for port 22 that follows reaches
  \<^verbatim>\<open>return false, ...\<close>, and the deferred \<^verbatim>\<open>close(messages)\<close> then panics with a close of
  a closed channel: no reply is returned. Both copies of the handler do so.
\<close>

theorem reserved_port_on_closed_channel:
  "tcpipForwardRequestHandler refactored example_host
     (snd (tcpipForwardRequestHandler refactored example_host live_world ''abc''))
     (bind_payload 22) =
     (Panicked CloseOfClosedChannel, live_world\<lparr>messages_closed := True, trace := [CloseMessages]\<rparr>)
   \<and> tcpipForwardRequestHandler ssh_server_go example_host
     (snd (tcpipForwardRequestHandler ssh_server_go example_host live_world ''abc''))
     (bind_payload 22) =
     (Panicked CloseOfClosedChannel, live_world\<lparr>messages_closed := True, trace := [CloseMessages]\<rparr>)"
  by code_simp

text \<open>
  While the messages channel is open, a payload that does not decode is answered with
  \<open>false\<close> and an empty payload, and nothing but the deferred close happens.
\<close>

lemma malformed_payload_rejected:
  assumes "ctx_messages w" and "ctx_conn w" and "\<not> messages_closed w"
    and "Unmarshal_request payload = None"
  shows "fst (tcpipForwardRequestHandler v net_Listen w payload) = Returned False []
       \<and> new_events w (snd (tcpipForwardRequestHandler v net_Listen w payload)) = [CloseMessages]
       \<and> filter opens_socket
            (new_events w (snd (tcpipForwardRequestHandler v net_Listen w payload))) = []"
  using handler_malformed [OF assms, of v net_Listen] by simp

text \<open>
  C5. The claim fails on a connection that has had a rejected request before (here one
  for port 22): the payload that does not decode reaches \<^verbatim>\<open>return false, []byte{}\<close>, and
  the deferred \<^verbatim>\<open>close(messages)\<close> panics with a close of a closed channel instead of
  the reply. Both copies of the handler do so.
\<close>

theorem malformed_payload_on_closed_channel:
  "tcpipForwardRequestHandler refactored example_host
     (snd (tcpipForwardRequestHandler refactored example_host live_world (bind_payload 22)))
     ''abc'' =
     (Panicked CloseOfClosedChannel, live_world\<lparr>messages_closed := True, trace := [CloseMessages]\<rparr>)
   \<and> tcpipForwardRequestHandler ssh_server_go example_host
     (snd (tcpipForwardRequestHandler ssh_server_go example_host live_world (bind_payload 22)))
     ''abc'' =
     (Panicked CloseOfClosedChannel, live_world\<lparr>messages_closed := True, trace := [CloseMessages]\<rparr>)"
  by code_simp

section \<open>The port in the response\<close>

text \<open>
  C4, as stated, fails: the bind for port 0 succeeds, and with no session receiving from
  the messages channel the handler stays in the send of \<open>forwarding traffic from ...\<close>;
  the socket is bound and no reply is returned.
\<close>

theorem bound_without_reply:
  "tcpipForwardRequestHandler refactored example_host (live_world\<lparr>receiver := False\<rparr>)
     (bind_payload 0) =
     (Hung,
      live_world\<lparr>receiver := False,
        trace := [Listen ''0.0.0.0:0'' (Some \<lparr>IP = ''0.0.0.0'', Port = 40000\<rparr>)]\<rparr>)"
  by code_simp

text \<open>
  C4, amended. For every bind request with \<open>BindPort = 0\<close> whose \<^verbatim>\<open>net.Listen\<close>
  succeeds, with a listener address as the operating system prints it (a host without
  brackets, a port in the TCP range): whenever the handler returns \<open>true\<close>, the response
  is the marshalled \<^verbatim>\<open>uint32\<close> whose value is the port of the listener's own address, not
  the requested 0, and that listener is the one this run opened and handed to the accept
  loop. The handler does return \<open>true\<close> when the messages channel is open and the session
  is receiving from it; while the channel is open and no session is receiving, the
  handler stays blocked in the send, with the socket bound and no reply. What the handler
  does on a messages channel that is already closed is left open here.
\<close>

theorem ephemeral_port_when_received:
  assumes "Unmarshal_request payload = Some rq"
    and "BindPort rq = 0"
    and "net_Listen (JoinHostPort (BindAddr rq) ''0'') = Some ln"
    and "CHR ''['' \<notin> set (IP ln)" and "CHR '']'' \<notin> set (IP ln)"
    and "0 \<le> Port ln" and "Port ln < 65536"
  shows "(fst (tcpipForwardRequestHandler v net_Listen w payload) = Returned True p \<longrightarrow>
            p = PutUint32 (word_of_int (Port ln))
          \<and> parseUint32 p = Some (word_of_int (Port ln), [])
          \<and> uint (word_of_int (Port ln) :: uint32) = Port ln
          \<and> new_events w (snd (tcpipForwardRequestHandler v net_Listen w payload)) =
              [Listen (JoinHostPort (BindAddr rq) ''0'') (Some ln),
               Send (''forwarding traffic from '' @ Addr_String ln),
               Go (CloseOnDone ln),
               Go (AcceptLoop v ln rq (Port ln))])
       \<and> (ctx_messages w \<and> ctx_conn w \<and> \<not> messages_closed w \<and> receiver w \<longrightarrow>
            fst (tcpipForwardRequestHandler v net_Listen w payload) =
              Returned True (PutUint32 (word_of_int (Port ln))))
       \<and> (ctx_messages w \<and> ctx_conn w \<and> \<not> messages_closed w \<and> \<not> receiver w \<longrightarrow>
            fst (tcpipForwardRequestHandler v net_Listen w payload) = Hung
          \<and> new_events w (snd (tcpipForwardRequestHandler v net_Listen w payload)) =
              [Listen (JoinHostPort (BindAddr rq) ''0'') (Some ln)])"
proof -
  let ?H = "tcpipForwardRequestHandler v net_Listen w payload"
  have p: "BindPort rq \<noteq> 22" "BindPort rq \<noteq> 80" "BindPort rq \<noteq> 443"
    using assms(2) by simp_all
  have a: "JoinHostPort (BindAddr rq) (Itoa (uint (BindPort rq))) = JoinHostPort (BindAddr rq) ''0''"
    using assms(2) Itoa_0 by simp
  have l: "net_Listen (JoinHostPort (BindAddr rq) (Itoa (uint (BindPort rq)))) = Some ln"
    using assms(3) a by simp
  have b: "Port ln < 2 ^ 63"
    using assms(7) by simp
  have u: "uint (word_of_int (Port ln) :: uint32) = Port ln"
    using assms(6,7) by (simp add: uint_word_of_int)
  have ok: "fst ?H = Returned True (PutUint32 (word_of_int (Port ln)))
          \<and> new_events w (snd ?H) =
              [Listen (JoinHostPort (BindAddr rq) ''0'') (Some ln),
               Send (''forwarding traffic from '' @ Addr_String ln),
               Go (CloseOnDone ln),
               Go (AcceptLoop v ln rq (Port ln))]"
    if "ctx_messages w \<and> ctx_conn w \<and> \<not> messages_closed w \<and> receiver w"
    using handler_success [of w payload rq net_Listen ln v] assms(1) that p l assms(4-6) b
    unfolding a by simp
  have blocked: "fst ?H = Hung
          \<and> new_events w (snd ?H) = [Listen (JoinHostPort (BindAddr rq) ''0'') (Some ln)]"
    if "ctx_messages w \<and> ctx_conn w \<and> \<not> messages_closed w \<and> \<not> receiver w"
    using handler_blocked [of w payload rq net_Listen ln v] assms(1) that p l
    unfolding a by simp
  have ret: "p = PutUint32 (word_of_int (Port ln))
          \<and> parseUint32 p = Some (word_of_int (Port ln), [])
          \<and> new_events w (snd ?H) =
              [Listen (JoinHostPort (BindAddr rq) ''0'') (Some ln),
               Send (''forwarding traffic from '' @ Addr_String ln),
               Go (CloseOnDone ln),
               Go (AcceptLoop v ln rq (Port ln))]"
    if r: "fst ?H = Returned True p"
  proof -
    from ok [OF handler_success_needs [OF r]] r
    have "p = PutUint32 (word_of_int (Port ln))" and
      "new_events w (snd ?H) =
              [Listen (JoinHostPort (BindAddr rq) ''0'') (Some ln),
               Send (''forwarding traffic from '' @ Addr_String ln),
               Go (CloseOnDone ln),
               Go (AcceptLoop v ln rq (Port ln))]"
      by simp_all
    then show ?thesis
      by (simp add: parseUint32_PutUint32)
  qed
  show ?thesis
    using ok blocked ret u by blast
qed

theorem ephemeral_port_when_received_witness:
  "fst (tcpipForwardRequestHandler refactored example_host live_world (bind_payload 0)) =
     Returned True (PutUint32 40000)
   \<and> parseUint32 (PutUint32 40000) = Some (40000, [])
   \<and> uint (40000 :: uint32) = 40000
   \<and> new_events live_world
        (snd (tcpipForwardRequestHandler refactored example_host live_world (bind_payload 0))) =
       [Listen ''0.0.0.0:0'' (Some \<lparr>IP = ''0.0.0.0'', Port = 40000\<rparr>),
        Send ''forwarding traffic from 0.0.0.0:40000'',
        Go (CloseOnDone \<lparr>IP = ''0.0.0.0'', Port = 40000\<rparr>),
        Go (AcceptLoop refactored \<lparr>IP = ''0.0.0.0'', Port = 40000\<rparr>
              \<lparr>BindAddr = ''0.0.0.0'', BindPort = 0\<rparr> 40000)]"
proof -
  have j: "JoinHostPort ''0.0.0.0'' ''0'' = ''0.0.0.0:0''"
    by code_simp
  have a: "Addr_String \<lparr>IP = ''0.0.0.0'', Port = 40000\<rparr> = ''0.0.0.0:40000''"
    by code_simp
  have e: "example_host ''0.0.0.0:0'' = Some \<lparr>IP = ''0.0.0.0'', Port = 40000\<rparr>"
    by code_simp
  have l: "ctx_messages live_world" "ctx_conn live_world" "\<not> messages_closed live_world"
      "receiver live_world"
    by (simp_all add: live_world_eq)
  show ?thesis
    using ephemeral_port_when_received [of "bind_payload 0"
      "\<lparr>BindAddr = ''0.0.0.0'', BindPort = 0\<rparr>" example_host
      "\<lparr>IP = ''0.0.0.0'', Port = 40000\<rparr>" refactored live_world "PutUint32 40000"] a l
    by (simp add: Unmarshal_bind_payload_0 e j)
qed

section \<open>Closing the messages channel on failure\<close>

lemma handler_failure_closes:
  assumes "ctx_messages w"
    and "fst (tcpipForwardRequestHandler v net_Listen w payload) = Returned False p"
  shows "\<not> messages_closed w
       \<and> messages_closed (snd (tcpipForwardRequestHandler v net_Listen w payload))
       \<and> new_events w (snd (tcpipForwardRequestHandler v net_Listen w payload)) \<noteq> []
       \<and> last (new_events w (snd (tcpipForwardRequestHandler v net_Listen w payload))) = CloseMessages"
  using assms unfolding tcpipForwardRequestHandler_def
  by (auto simp: Let_def return_deferred_def close_messages_def send_def emit_def new_events_def
      split: option.splits if_splits)

lemma handler_failure_on_closed:
  assumes "ctx_messages w" and "ctx_conn w" and "messages_closed w"
    and "Unmarshal_request payload = None
       \<or> (\<exists>rq. Unmarshal_request payload = Some rq
            \<and> (BindPort rq = 22 \<or> BindPort rq = 80 \<or> BindPort rq = 443
               \<or> net_Listen (JoinHostPort (BindAddr rq) (Itoa (uint (BindPort rq)))) = None))"
  shows "fst (tcpipForwardRequestHandler v net_Listen w payload) = Panicked CloseOfClosedChannel"
  using assms unfolding tcpipForwardRequestHandler_def
  by (auto simp: Let_def return_deferred_def close_messages_def send_def emit_def
      split: option.splits if_splits)

lemma handler_keeps_closed:
  assumes "messages_closed w"
  shows "messages_closed (snd (tcpipForwardRequestHandler v net_Listen w payload))"
  using assms unfolding tcpipForwardRequestHandler_def
  by (auto simp: Let_def return_deferred_def close_messages_def send_def emit_def
      split: option.splits if_splits)

lemma handler_keeps_context:
  "ctx_messages (snd (tcpipForwardRequestHandler v net_Listen w payload)) = ctx_messages w
   \<and> ctx_conn (snd (tcpipForwardRequestHandler v net_Listen w payload)) = ctx_conn w"
  unfolding tcpipForwardRequestHandler_def
  by (auto simp: Let_def return_deferred_def close_messages_def send_def emit_def
      split: option.splits if_splits)


text \<open>
  C10. With the messages channel and the connection in the context: whenever the
  handler returns \<open>false\<close>, the channel was open, the last thing the handler did was
  \<^verbatim>\<open>close(messages)\<close>, and the channel is closed afterwards. Each of the three causes
  (malformed payload, port 22, 80 or 443, bind failure) on an open channel ends in such a
  return; the channel then stays closed through any further request on the connection,
  and a further request that is rejected panics with a close of a closed channel, as does
  any rejected request that finds the channel closed.
\<close>

theorem failure_closes_messages:
  assumes "ctx_messages w" and "ctx_conn w"
  shows "(fst (tcpipForwardRequestHandler v net_Listen w payload) = Returned False p \<longrightarrow>
            \<not> messages_closed w
          \<and> messages_closed (snd (tcpipForwardRequestHandler v net_Listen w payload))
          \<and> new_events w (snd (tcpipForwardRequestHandler v net_Listen w payload)) \<noteq> []
          \<and> last (new_events w (snd (tcpipForwardRequestHandler v net_Listen w payload)))
              = CloseMessages)
       \<and> (rejects net_Listen payload \<and> \<not> messages_closed w \<longrightarrow>
            (\<exists>q. fst (tcpipForwardRequestHandler v net_Listen w payload) = Returned False q)
          \<and> messages_closed (snd (tcpipForwardRequestHandler v net_Listen w payload))
          \<and> messages_closed
              (snd (tcpipForwardRequestHandler v' net_Listen'
                     (snd (tcpipForwardRequestHandler v net_Listen w payload)) payload'))
          \<and> (rejects net_Listen' payload' \<longrightarrow>
               fst (tcpipForwardRequestHandler v' net_Listen'
                     (snd (tcpipForwardRequestHandler v net_Listen w payload)) payload')
                 = Panicked CloseOfClosedChannel))
       \<and> (rejects net_Listen payload \<and> messages_closed w \<longrightarrow>
            fst (tcpipForwardRequestHandler v net_Listen w payload) = Panicked CloseOfClosedChannel)"
proof -
  let ?H = "tcpipForwardRequestHandler v net_Listen w payload"
  have a: "fst ?H = Returned False p \<longrightarrow>
      \<not> messages_closed w \<and> messages_closed (snd ?H) \<and> new_events w (snd ?H) \<noteq> []
      \<and> last (new_events w (snd ?H)) = CloseMessages"
    using handler_failure_closes [OF assms(1)] by blast
  have r: "\<exists>q. fst ?H = Returned False q" if "rejects net_Listen payload" "\<not> messages_closed w"
    using that assms unfolding tcpipForwardRequestHandler_def rejects_def
    by (auto simp: Let_def return_deferred_def close_messages_def emit_def
        split: option.splits)
  have c: "messages_closed (snd ?H)" if "rejects net_Listen payload" "\<not> messages_closed w"
    using r [OF that] handler_failure_closes [OF assms(1)] by blast
  have k: "messages_closed (snd (tcpipForwardRequestHandler v' net_Listen' (snd ?H) payload'))"
    if "rejects net_Listen payload" "\<not> messages_closed w"
    using c [OF that] by (rule handler_keeps_closed)
  have ctx': "ctx_messages (snd ?H)" "ctx_conn (snd ?H)"
    using handler_keeps_context [of v net_Listen w payload] assms by simp_all
  have s: "fst (tcpipForwardRequestHandler v' net_Listen' (snd ?H) payload')
      = Panicked CloseOfClosedChannel"
    if "rejects net_Listen payload" "\<not> messages_closed w" "rejects net_Listen' payload'"
    using handler_failure_on_closed [OF ctx' c [OF that(1,2)], of payload' net_Listen' v'] that(3)
    unfolding rejects_def by (auto split: option.splits)
  have z: "fst ?H = Panicked CloseOfClosedChannel"
    if "rejects net_Listen payload" "messages_closed w"
    using handler_failure_on_closed [OF assms that(2), of payload net_Listen v] that(1)
    unfolding rejects_def by (auto split: option.splits)
  show ?thesis
    using a r c k s z by blast
qed


theorem failure_closes_messages_witness:
  "fst (tcpipForwardRequestHandler refactored example_host live_world ''abc'') = Returned False []
   \<and> messages_closed (snd (tcpipForwardRequestHandler refactored example_host live_world ''abc''))
   \<and> last (new_events live_world
        (snd (tcpipForwardRequestHandler refactored example_host live_world ''abc''))) = CloseMessages
   \<and> fst (tcpipForwardRequestHandler refactored example_host
        (snd (tcpipForwardRequestHandler refactored example_host live_world ''abc''))
        (bind_payload 22)) = Panicked CloseOfClosedChannel"
proof -
  have e: "fst (tcpipForwardRequestHandler refactored example_host live_world ''abc'')
      = Returned False []"
    by code_simp
  have r: "rejects example_host ''abc''" "rejects example_host (bind_payload 22)"
    by (simp_all add: rejects_def Unmarshal_truncated Unmarshal_bind_payload_22)
  have l: "ctx_messages live_world" "ctx_conn live_world" "\<not> messages_closed live_world"
    by (simp_all add: live_world_eq)
  show ?thesis
    using failure_closes_messages [OF l(1,2), of refactored example_host "''abc''" "[]"
        refactored example_host "bind_payload 22"] e r l(3)
    by simp
qed


section \<open>What the handler does before it replies\<close>

lemma live_world_trace: "trace live_world = []"
  by (simp add: live_world_eq)

lemma handler_bind_0:
  "tcpipForwardRequestHandler refactored example_host live_world (bind_payload 0) =
     (Returned True (PutUint32 40000),
      \<lparr>ctx_messages = True, ctx_conn = True, messages_closed = False, receiver = True,
       trace = [Listen ''0.0.0.0:0'' (Some \<lparr>IP = ''0.0.0.0'', Port = 40000\<rparr>),
                Send ''forwarding traffic from 0.0.0.0:40000'',
                Go (CloseOnDone \<lparr>IP = ''0.0.0.0'', Port = 40000\<rparr>),
                Go (AcceptLoop refactored \<lparr>IP = ''0.0.0.0'', Port = 40000\<rparr>
                      \<lparr>BindAddr = ''0.0.0.0'', BindPort = 0\<rparr> 40000)]\<rparr>)"
  by code_simp

lemma filter_interleave:
  "\<forall>x \<in> set xs. P x \<Longrightarrow> \<forall>y \<in> set ys. \<not> P y \<Longrightarrow>
   filter P (interleave sched xs ys) = xs \<and> filter (\<lambda>a. \<not> P a) (interleave sched xs ys) = ys"
  by (induction sched xs ys rule: interleave.induct) auto

lemma handler_success_events:
  "fst (tcpipForwardRequestHandler v net_Listen w payload) = Returned True p \<Longrightarrow>
   \<exists>addr ln rq destPort.
     new_events w (snd (tcpipForwardRequestHandler v net_Listen w payload)) =
       [Listen addr (Some ln),
        Send (''forwarding traffic from '' @ Addr_String ln),
        Go (CloseOnDone ln),
        Go (AcceptLoop v ln rq destPort)]"
  unfolding tcpipForwardRequestHandler_def
  by (auto simp: Let_def return_deferred_def close_messages_def send_def emit_def new_events_def
      split: option.splits if_splits)

lemma handler_failure_events:
  "fst (tcpipForwardRequestHandler v net_Listen w payload) = Returned False p \<Longrightarrow>
   filter is_Send (new_events w (snd (tcpipForwardRequestHandler v net_Listen w payload))) = []
   \<and> filter is_Accept (new_events w (snd (tcpipForwardRequestHandler v net_Listen w payload))) = []
   \<and> spawned_loop (new_events w (snd (tcpipForwardRequestHandler v net_Listen w payload))) = None"
  unfolding tcpipForwardRequestHandler_def
  by (auto simp: Let_def return_deferred_def close_messages_def send_def emit_def new_events_def
      split: option.splits if_splits)

lemma notifies_Did: "filter notifies (map Did es) = map Did (filter is_Send es)"
proof (induction es)
  case Nil
  then show ?case by simp
next
  case (Cons e es)
  then show ?case by (cases e) simp_all
qed

lemma accepts_Did_none: "filter is_Accept es = [] \<Longrightarrow> filter accepts (map Did es) = []"
proof (induction es)
  case Nil
  then show ?case by simp
next
  case (Cons e es)
  then show ?case by (cases e) (simp_all split: if_splits)
qed

text \<open>
  C9, as stated, fails in both parts. In every execution of a granted request the
  message \<open>forwarding traffic from 0.0.0.0:40000\<close> is handed over before the reply. And
  the accept loop is started before the handler returns: in the execution where the
  scheduler lets that goroutine run first, a connection is accepted before the reply.
\<close>

theorem reply_not_first:
  "\<not> reply_before_notifications
       (execution refactored example_host live_world (bind_payload 0) [] [])
   \<and> \<not> reply_before_accepts
       (execution refactored example_host live_world (bind_payload 0)
          [Accepted example_conn (Opened (Channel 1))] [False, False])"
  by code_simp

text \<open>
  C9, amended. In every execution of a request that is granted, whatever the schedule
  and whatever the environment answers to the accept loop: first the handler binds the
  listener, then it hands over the one notification \<open>forwarding traffic from <listener
  address>\<close>, then it starts the goroutine that closes the listener with the connection,
  then the accept loop. The reply comes after these four steps, once; the steps of the
  accept loop (every accepted connection and every other notification) come after these
  four steps too, in their own order, and the reply may fall anywhere among them. In an
  execution of a request that is rejected the reply follows the handler's effects, no
  notification is handed over and no connection is accepted.
\<close>

theorem reply_after_first_notification:
  "(fst (tcpipForwardRequestHandler v net_Listen w payload) = Returned True p \<longrightarrow>
      (\<exists>addr ln rq destPort.
         take 4 (execution v net_Listen w payload script sched) =
           [Did (Listen addr (Some ln)),
            Did (Send (''forwarding traffic from '' @ Addr_String ln)),
            Did (Go (CloseOnDone ln)),
            Did (Go (AcceptLoop v ln rq destPort))]
       \<and> filter is_Replied (drop 4 (execution v net_Listen w payload script sched))
           = [Replied True p]
       \<and> filter (\<lambda>a. \<not> is_Replied a) (drop 4 (execution v net_Listen w payload script sched))
           = map Did
               (new_events (snd (tcpipForwardRequestHandler v net_Listen w payload))
                  (snd (accept_goroutine v rq destPort script
                          (snd (tcpipForwardRequestHandler v net_Listen w payload)))))))
   \<and> (fst (tcpipForwardRequestHandler v net_Listen w payload) = Returned False p \<longrightarrow>
        execution v net_Listen w payload script sched =
          map Did (new_events w (snd (tcpipForwardRequestHandler v net_Listen w payload)))
            @ [Replied False p]
      \<and> filter notifies (execution v net_Listen w payload script sched) = []
      \<and> filter accepts (execution v net_Listen w payload script sched) = [])"
proof (intro conjI impI)
  let ?H = "tcpipForwardRequestHandler v net_Listen w payload"
  assume ok: "fst ?H = Returned True p"
  from handler_success_events [OF ok] obtain addr ln rq destPort where
    es: "new_events w (snd ?H) =
       [Listen addr (Some ln), Send (''forwarding traffic from '' @ Addr_String ln),
        Go (CloseOnDone ln), Go (AcceptLoop v ln rq destPort)]"
    by blast
  let ?G = "new_events (snd ?H) (snd (accept_goroutine v rq destPort script (snd ?H)))"
  have g: "goroutine_events (new_events w (snd ?H)) script (snd ?H) = ?G"
    by (simp add: goroutine_events_def es)
  have ex: "execution v net_Listen w payload script sched =
      [Did (Listen addr (Some ln)), Did (Send (''forwarding traffic from '' @ Addr_String ln)),
       Did (Go (CloseOnDone ln)), Did (Go (AcceptLoop v ln rq destPort))]
      @ interleave sched [Replied True p] (map Did ?G)"
    unfolding execution_def Let_def g using ok es by simp
  have f: "filter is_Replied (interleave sched [Replied True p] (map Did ?G)) = [Replied True p]
      \<and> filter (\<lambda>a. \<not> is_Replied a) (interleave sched [Replied True p] (map Did ?G)) = map Did ?G"
    by (rule filter_interleave) auto
  show "\<exists>addr ln rq destPort.
         take 4 (execution v net_Listen w payload script sched) =
           [Did (Listen addr (Some ln)),
            Did (Send (''forwarding traffic from '' @ Addr_String ln)),
            Did (Go (CloseOnDone ln)),
            Did (Go (AcceptLoop v ln rq destPort))]
       \<and> filter is_Replied (drop 4 (execution v net_Listen w payload script sched))
           = [Replied True p]
       \<and> filter (\<lambda>a. \<not> is_Replied a) (drop 4 (execution v net_Listen w payload script sched))
           = map Did
               (new_events (snd ?H) (snd (accept_goroutine v rq destPort script (snd ?H))))"
    using f unfolding ex by (intro exI [of _ addr] exI [of _ ln] exI [of _ rq] exI [of _ destPort]) simp
next
  let ?H = "tcpipForwardRequestHandler v net_Listen w payload"
  assume no: "fst ?H = Returned False p"
  note fe = handler_failure_events [OF no]
  have g: "goroutine_events (new_events w (snd ?H)) script (snd ?H) = []"
    using fe by (simp add: goroutine_events_def)
  show ex: "execution v net_Listen w payload script sched =
      map Did (new_events w (snd ?H)) @ [Replied False p]"
    unfolding execution_def Let_def g using no by simp
  show "filter notifies (execution v net_Listen w payload script sched) = []"
    unfolding ex using fe by (simp add: notifies_Did)
  show "filter accepts (execution v net_Listen w payload script sched) = []"
    unfolding ex using fe by (simp add: accepts_Did_none)
qed

theorem reply_after_first_notification_witness:
  "take 4 (execution refactored example_host live_world (bind_payload 0)
       [Accepted example_conn (Opened (Channel 1))] [True]) =
     [Did (Listen ''0.0.0.0:0'' (Some \<lparr>IP = ''0.0.0.0'', Port = 40000\<rparr>)),
      Did (Send ''forwarding traffic from 0.0.0.0:40000''),
      Did (Go (CloseOnDone \<lparr>IP = ''0.0.0.0'', Port = 40000\<rparr>)),
      Did (Go (AcceptLoop refactored \<lparr>IP = ''0.0.0.0'', Port = 40000\<rparr>
            \<lparr>BindAddr = ''0.0.0.0'', BindPort = 0\<rparr> 40000))]
   \<and> filter is_Replied (drop 4 (execution refactored example_host live_world (bind_payload 0)
       [Accepted example_conn (Opened (Channel 1))] [True])) = [Replied True (PutUint32 40000)]
   \<and> reply_before_accepts (execution refactored example_host live_world (bind_payload 0)
       [Accepted example_conn (Opened (Channel 1))] [True])"
proof -
  have h: "fst (tcpipForwardRequestHandler refactored example_host live_world (bind_payload 0))
      = Returned True (PutUint32 40000)"
    by (simp add: handler_bind_0)
  have t: "take 4 (execution refactored example_host live_world (bind_payload 0)
       [Accepted example_conn (Opened (Channel 1))] [True]) =
     [Did (Listen ''0.0.0.0:0'' (Some \<lparr>IP = ''0.0.0.0'', Port = 40000\<rparr>)),
      Did (Send ''forwarding traffic from 0.0.0.0:40000''),
      Did (Go (CloseOnDone \<lparr>IP = ''0.0.0.0'', Port = 40000\<rparr>)),
      Did (Go (AcceptLoop refactored \<lparr>IP = ''0.0.0.0'', Port = 40000\<rparr>
            \<lparr>BindAddr = ''0.0.0.0'', BindPort = 0\<rparr> 40000))]"
    by code_simp
  have a: "reply_before_accepts (execution refactored example_host live_world (bind_payload 0)
       [Accepted example_conn (Opened (Channel 1))] [True])"
    by code_simp
  show ?thesis
    using reply_after_first_notification [of refactored example_host live_world "bind_payload 0"
        "PutUint32 40000" "[Accepted example_conn (Opened (Channel 1))]" "[True]"] h t a
    by blast
qed

section \<open>The admission check of the handler\<close>

text \<open>Every port the policy allows passes the check of the handler.\<close>

lemma policy_implies_admission:
  "allowTCPForwarding p \<Longrightarrow> p \<noteq> 22 \<and> p \<noteq> 80 \<and> p \<noteq> 443"
  unfolding allowTCPForwarding_def by auto

text \<open>The handler calls \<^verbatim>\<open>net.Listen\<close> exactly for the ports other than 22, 80 and 443.\<close>

lemma handler_calls_Listen_iff:
  assumes "ctx_messages w" and "ctx_conn w" and "Unmarshal_request payload = Some rq"
  shows "(\<exists>r. Listen (JoinHostPort (BindAddr rq) (Itoa (uint (BindPort rq)))) r
            \<in> set (new_events w (snd (tcpipForwardRequestHandler v net_Listen w payload))))
         \<longleftrightarrow> BindPort rq \<noteq> 22 \<and> BindPort rq \<noteq> 80 \<and> BindPort rq \<noteq> 443"
  using assms unfolding tcpipForwardRequestHandler_def
  by (auto simp: Let_def return_deferred_def close_messages_def send_def emit_def new_events_def
      split: option.splits)

lemma handler_bind_23:
  "tcpipForwardRequestHandler v example_host live_world (bind_payload 23) =
     (Returned True (PutUint32 23),
      \<lparr>ctx_messages = True, ctx_conn = True, messages_closed = False, receiver = True,
       trace = [Listen ''0.0.0.0:23'' (Some \<lparr>IP = ''0.0.0.0'', Port = 23\<rparr>),
                Send ''forwarding traffic from 0.0.0.0:23'',
                Go (CloseOnDone \<lparr>IP = ''0.0.0.0'', Port = 23\<rparr>),
                Go (AcceptLoop v \<lparr>IP = ''0.0.0.0'', Port = 23\<rparr>
                      \<lparr>BindAddr = ''0.0.0.0'', BindPort = 23\<rparr> 23)]\<rparr>)"
  by code_simp

text \<open>
  C2. The handler and the port policy disagree on port 23: the policy predicate rejects
  it, and both copies of the handler bind it and return \<open>true\<close>.
\<close>

theorem handler_binds_port_23:
  "\<not> allowTCPForwarding 23
   \<and> fst (tcpipForwardRequestHandler ssh_server_go example_host live_world (bind_payload 23))
       = Returned True (PutUint32 23)
   \<and> fst (tcpipForwardRequestHandler refactored example_host live_world (bind_payload 23))
       = Returned True (PutUint32 23)
   \<and> filter opens_socket (new_events live_world
        (snd (tcpipForwardRequestHandler refactored example_host live_world (bind_payload 23))))
       = [Listen ''0.0.0.0:23'' (Some \<lparr>IP = ''0.0.0.0'', Port = 23\<rparr>)]"
  by (simp add: handler_bind_23 allowTCPForwarding_def new_events_def live_world_trace)


section \<open>The accept loop and its errors\<close>














section \<open>A channel that does not open\<close>

text \<open>
  The round of \<^verbatim>\<open>tcpipForwardConnectionHandler\<close> for a socket whose channel does not open,
  for every socket and every error: no \<open>CloseConn\<close>, and a relay on a \<^verbatim>\<open>nil\<close> channel.
\<close>

lemma serve_open_failed:
  assumes "\<not> messages_closed w" and "receiver w"
  shows "serve rq dp conn (OpenFailed e) w =
           (Normal,
            w\<lparr>trace := trace w @
               [Send (''accepted connection from '' @ fst (SplitHostPort (RemoteAddr_String conn))
                      @ '':'' @ fst (snd (SplitHostPort (RemoteAddr_String conn)))),
                OpenChannel ''forwarded-tcpip''
                  (Marshal_forward (BindAddr rq) (word_of_int dp)
                     (fst (SplitHostPort (RemoteAddr_String conn)))
                     (word_of_int (fst (Atoi (fst (snd (SplitHostPort (RemoteAddr_String conn)))))))),
                Send (''error occurred while processing: '' @ e),
                Go (DiscardRequests None),
                Go (CopyToChannel None conn),
                Go (CopyToConn None conn)]\<rparr>)"
  using assms
  by (simp add: serve_def Let_def send_def emit_def newChannel_def start_relay_def)

lemma copy_nil_channel:
  "copyGoroutine d None conn env s = (GoPanicked NilDereference, s)"
  by (simp add: copyGoroutine_def)

text \<open>
  C7. When \<^verbatim>\<open>newChannel\<close> fails for an accepted socket, neither copy of the code does
  what the claim says. \<^verbatim>\<open>tcpipForwardConnectionHandler\<close> sends the diagnostic, but then
  neither closes the socket nor leaves the round: it starts \<^verbatim>\<open>DiscardRequests\<close> and both
  copy goroutines with the \<^verbatim>\<open>nil\<close> channel, and each copy goroutine panics in its first
  \<^verbatim>\<open>defer\<close> without closing anything. The loop of \<^verbatim>\<open>ssh_server.go\<close> sends the diagnostic
  and closes the socket, but then breaks: it closes the messages channel and never
  accepts the next connection.
\<close>

theorem open_failure_falls_through:
  "tcpipForwardConnectionHandler example_request 40000
     [Accepted example_conn (OpenFailed ''rejected'')] live_world =
     (LoopInAccept,
      \<lparr>ctx_messages = True, ctx_conn = True, messages_closed = False, receiver = True,
       trace = [Accept (Accepted example_conn (OpenFailed ''rejected'')),
                Send ''accepted connection from 10.0.0.7:5555'',
                OpenChannel ''forwarded-tcpip''
                  (Marshal_forward ''0.0.0.0'' 40000 ''10.0.0.7'' 5555),
                Send ''error occurred while processing: rejected'',
                Go (DiscardRequests None),
                Go (CopyToChannel None example_conn),
                Go (CopyToConn None example_conn)]\<rparr>)
   \<and> copyGoroutine ToChannel None example_conn None new_relay
       = (GoPanicked NilDereference, new_relay)
   \<and> copyGoroutine ToConn None example_conn (Some EOF) new_relay
       = (GoPanicked NilDereference, new_relay)
   \<and> acceptGoroutine_ssh_server_go example_request 40000
       [Accepted example_conn (OpenFailed ''rejected''),
        Accepted (Conn ''10.0.0.8:6666'') (Opened (Channel 1))] live_world =
     (Exited,
      \<lparr>ctx_messages = True, ctx_conn = True, messages_closed = True, receiver = True,
       trace = [Accept (Accepted example_conn (OpenFailed ''rejected'')),
                Send ''accepted connection from 10.0.0.7:5555'',
                OpenChannel ''forwarded-tcpip''
                  (Marshal_forward ''0.0.0.0'' 40000 ''10.0.0.7'' 5555),
                Send ''error occurred while forwarding connection'',
                CloseConn example_conn,
                CloseMessages]\<rparr>)"
  by code_simp

section \<open>The two copy loops of a relay\<close>

lemma copy_exit:
  "copyGoroutine d (Some ch) c (Some r) s =
     (Exited, s\<lparr>conn_closed := True, channel_closed := True, exited := exited s @ [d],
                 closes := closes s @ [CloseConn c, CloseChannel ch]\<rparr>)"
  by (simp add: copyGoroutine_def io_Copy_def)

lemma copy_unblocked:
  "conn_closed s \<Longrightarrow> channel_closed s \<Longrightarrow>
   copyGoroutine d (Some ch) c env s =
     (Exited, s\<lparr>conn_closed := True, channel_closed := True, exited := exited s @ [d],
                 closes := closes s @ [CloseConn c, CloseChannel ch]\<rparr>)"
  by (cases d) (simp_all add: copyGoroutine_def io_Copy_def)


lemma closed_together_new: "closed_together new_relay"
  by (simp add: closed_together_def new_relay_def)

lemma closed_together_exited:
  "closed_together s \<Longrightarrow> exited s \<noteq> [] \<Longrightarrow> conn_closed s \<and> channel_closed s"
  unfolding closed_together_def by blast

lemma copy_step_invariant:
  assumes "closed_together s"
  shows "closed_together (snd (copyGoroutine d (Some ch) c env s))"
proof (cases "io_Copy d env s")
  case None
  with assms show ?thesis by (simp add: copyGoroutine_def)
next
  case (Some r)
  then show ?thesis by (simp add: copyGoroutine_def closed_together_def)
qed

lemma run_relay_invariant:
  "closed_together s \<Longrightarrow> closed_together (run_relay ch c sched s)"
proof (induction sched arbitrary: s)
  case Nil
  then show ?case by simp
next
  case (Cons a sched)
  obtain d env where a: "a = (d, env)" by (cases a)
  show ?case
  proof (cases "d \<in> set (exited s)")
    case True
    with Cons a show ?thesis by simp
  next
    case False
    have "closed_together (snd (copyGoroutine d (Some ch) c env s))"
      using Cons.prems by (rule copy_step_invariant)
    then have "closed_together (run_relay ch c sched (snd (copyGoroutine d (Some ch) c env s)))"
      by (rule Cons.IH)
    with False a show ?thesis by simp
  qed
qed

text \<open>
  C8. For a relay whose channel was opened: whichever of the two copy goroutines sees
  its \<^verbatim>\<open>io.Copy\<close> come back, with end of input or with an error, closes the socket and
  then the channel and exits; after that the copy of the other goroutine comes back
  whatever the peers do, and it exits too. In every interleaving of the two goroutines
  the socket and the channel are open together or closed together, and once one
  goroutine has exited both are closed and the other one can only exit.
\<close>

theorem relay_closes_both:
  "copyGoroutine d (Some ch) c (Some r) s =
     (Exited, s\<lparr>conn_closed := True, channel_closed := True, exited := exited s @ [d],
                 closes := closes s @ [CloseConn c, CloseChannel ch]\<rparr>)
   \<and> fst (copyGoroutine d' (Some ch) c env
            (snd (copyGoroutine d (Some ch) c (Some r) s))) = Exited
   \<and> closed_together (run_relay ch c sched new_relay)
   \<and> (exited (run_relay ch c sched new_relay) \<noteq> [] \<longrightarrow>
        conn_closed (run_relay ch c sched new_relay)
      \<and> channel_closed (run_relay ch c sched new_relay)
      \<and> fst (copyGoroutine d' (Some ch) c env (run_relay ch c sched new_relay)) = Exited)"
proof -
  let ?s = "run_relay ch c sched new_relay"
  have i: "closed_together ?s"
    using closed_together_new by (rule run_relay_invariant)
  have u: "conn_closed ?s \<and> channel_closed ?s \<and> fst (copyGoroutine d' (Some ch) c env ?s) = Exited"
    if "exited ?s \<noteq> []"
  proof -
    have cc: "conn_closed ?s" "channel_closed ?s"
      using closed_together_exited [OF i that] by simp_all
    show ?thesis
      using cc copy_unblocked [OF cc, of d' ch c env] by simp
  qed
  have o: "fst (copyGoroutine d' (Some ch) c env
      (snd (copyGoroutine d (Some ch) c (Some r) s))) = Exited"
    by (simp add: copy_exit copy_unblocked)
  show ?thesis
    using i u o copy_exit by blast
qed

theorem relay_closes_both_witness:
  "run_relay (Channel 1) example_conn [(ToConn, None), (ToChannel, Some EOF), (ToConn, None)]
     new_relay =
     \<lparr>conn_closed = True, channel_closed = True, exited = [ToChannel, ToConn],
      closes = [CloseConn example_conn, CloseChannel (Channel 1),
                CloseConn example_conn, CloseChannel (Channel 1)]\<rparr>
   \<and> fst (copyGoroutine ToConn (Some (Channel 1)) example_conn None
        (run_relay (Channel 1) example_conn [(ToConn, None), (ToChannel, Some EOF)] new_relay))
       = Exited"
proof -
  have e: "exited (run_relay (Channel 1) example_conn [(ToConn, None), (ToChannel, Some EOF)]
      new_relay) \<noteq> []"
    by code_simp
  have r: "run_relay (Channel 1) example_conn [(ToConn, None), (ToChannel, Some EOF), (ToConn, None)]
     new_relay =
     \<lparr>conn_closed = True, channel_closed = True, exited = [ToChannel, ToConn],
      closes = [CloseConn example_conn, CloseChannel (Channel 1),
                CloseConn example_conn, CloseChannel (Channel 1)]\<rparr>"
    by code_simp
  show ?thesis
    using relay_closes_both [of ToConn "Channel 1" example_conn EOF new_relay ToConn None
        "[(ToConn, None), (ToChannel, Some EOF)]"] e r
    by simp
qed


end
